theory Spec2Isabelle
  imports Main "HOL-Library.Word"
begin

section \<open>Structured error responses of package goa (src/http/error.go)\<close>

subsection \<open>Go values, errors and the store\<close>

text \<open>
  An \<open>interface{}\<close> value, as far as \<open>error.go\<close> inspects it: a value of dynamic type
  \<open>string\<close>, the nil interface, or any other value, described by what its methods return:
  the text of \<open>Error()\<close> when it implements \<open>error\<close>, the text of \<open>String()\<close> when it
  implements \<open>fmt.Stringer\<close>, its default (\<open>%v\<close>) rendering and its Go-syntax (\<open>%#v\<close>)
  rendering. User methods are taken to return a string.
\<close>

datatype go_value =
    GoString string
  | GoNil
  | GoDyn (error_text: "string option") (stringer_text: "string option")
          (default_text: string) (gosyntax_text: string)

text \<open>
  A \<open>map[string]interface{}\<close> is the list of its entries, keys distinct, in the order in
  which a \<open>range\<close> over it visits them (the language leaves that order open). The map
  literal \<open>{k: v}\<close> is \<open>[(k, v)]\<close>. A slice is the list of its elements: two slices are
  taken not to share a backing array.
\<close>

type_synonym gomap = "(string \<times> go_value) list"

record ErrorResponse =
  ID :: string
  Code :: string
  Status :: int
  Detail :: string
  Meta :: "gomap list"

text \<open>
  A \<open>*ErrorResponse\<close> is nil or the address of a cell of the store; an \<open>error\<close> is the nil
  interface, a \<open>*ErrorResponse\<close>, or a value of any other type, of which only the text of
  \<open>Error()\<close> is observed.
\<close>

datatype ptr = Null | Addr nat

datatype go_error = ErrNil | ErrResp ptr | ErrOther string

datatype panic = NilDereference | IndexOutOfRange

text \<open>
  The state: the allocated \<open>ErrorResponse\<close> cells (an address is an index) and the bytes
  that \<open>crypto/rand.Reader\<close> will deliver.
\<close>

record world =
  heap :: "ErrorResponse list"
  entropy :: "8 word list"

definition alloc :: "ErrorResponse \<Rightarrow> world \<Rightarrow> ptr \<times> world" where
  "alloc r w = (Addr (length (heap w)), w\<lparr>heap := heap w @ [r]\<rparr>)"

definition load :: "ptr \<Rightarrow> world \<Rightarrow> panic + ErrorResponse" where
  "load p w =
     (case p of
        Null \<Rightarrow> Inl NilDereference
      | Addr n \<Rightarrow> if n < length (heap w) then Inr (heap w ! n) else Inl NilDereference)"

definition store :: "ptr \<Rightarrow> ErrorResponse \<Rightarrow> world \<Rightarrow> panic + world" where
  "store p r w =
     (case p of
        Null \<Rightarrow> Inl NilDereference
      | Addr n \<Rightarrow> if n < length (heap w) then Inr (w\<lparr>heap := (heap w)[n := r]\<rparr>)
                  else Inl NilDereference)"

subsection \<open>asErrorResponse and MergeErrors\<close>

text \<open>
  \<open>asErrorResponse\<close>: a \<open>*ErrorResponse\<close> is returned as it is; any other error is wrapped
  in a new cell with the three fields the composite literal sets, the others at their zero
  value. On the nil interface the call of \<open>err.Error()\<close> panics.
\<close>

definition asErrorResponse :: "go_error \<Rightarrow> world \<Rightarrow> panic + ptr \<times> world" where
  "asErrorResponse err w =
     (case err of
        ErrResp e \<Rightarrow> Inr (e, w)
      | ErrOther msg \<Rightarrow>
          Inr (alloc \<lparr>ID = [], Code = ''internal_error'', Status = 500,
                      Detail = msg, Meta = []\<rparr> w)
      | ErrNil \<Rightarrow> Inl NilDereference)"

text \<open>The inner loop of the merge: one \<open>append\<close> of a single-key map per entry of \<open>val\<close>.\<close>

fun append_entries :: "ptr \<Rightarrow> gomap \<Rightarrow> world \<Rightarrow> panic + world" where
  "append_entries e [] w = Inr w"
| "append_entries e ((k, v) # kvs) w =
     (case load e w of
        Inl p \<Rightarrow> Inl p
      | Inr ev \<Rightarrow>
          (case store e (ev\<lparr>Meta := Meta ev @ [[(k, v)]]\<rparr>) w of
             Inl p \<Rightarrow> Inl p
           | Inr w' \<Rightarrow> append_entries e kvs w'))"

text \<open>The outer loop, over the slice \<open>o.Meta\<close> as it was when the loop started.\<close>

fun append_meta :: "ptr \<Rightarrow> gomap list \<Rightarrow> world \<Rightarrow> panic + world" where
  "append_meta e [] w = Inr w"
| "append_meta e (val # vals) w =
     (case append_entries e val w of
        Inl p \<Rightarrow> Inl p
      | Inr w' \<Rightarrow> append_meta e vals w')"

text \<open>
  The \<open>switch\<close> of \<open>MergeErrors\<close>: it reads both cells and writes \<open>e\<close>. Both cells are
  read at once here; in Go \<open>o.Status\<close> is not read when \<open>e.Status\<close> is 500, and a nil \<open>o\<close>
  then panics one statement later, at \<open>o.Detail\<close>, with \<open>e\<close> as it was.
\<close>

definition merge_switch :: "ptr \<Rightarrow> ptr \<Rightarrow> world \<Rightarrow> panic + world" where
  "merge_switch e o' w =
     (case load e w of
        Inl p \<Rightarrow> Inl p
      | Inr ev \<Rightarrow>
          (case load o' w of
             Inl p \<Rightarrow> Inl p
           | Inr ov \<Rightarrow>
               if Status ev = 500 \<or> Status ov = 500 then
                 (if Status ev \<noteq> 500
                  then store e (ev\<lparr>Status := 500, Code := ''internal_error''\<rparr>) w
                  else Inr w)
               else if Status ev \<noteq> Status ov \<or> Code ev \<noteq> Code ov then
                 store e (ev\<lparr>Status := 400, Code := ''bad_request''\<rparr>) w
               else Inr w))"

text \<open>\<open>e.Detail = e.Detail + "; " + o.Detail\<close>, both read after the switch.\<close>

definition merge_detail :: "ptr \<Rightarrow> ptr \<Rightarrow> world \<Rightarrow> panic + world" where
  "merge_detail e o' w =
     (case load e w of
        Inl p \<Rightarrow> Inl p
      | Inr ev \<Rightarrow>
          (case load o' w of
             Inl p \<Rightarrow> Inl p
           | Inr ov \<Rightarrow> store e (ev\<lparr>Detail := Detail ev @ ''; '' @ Detail ov\<rparr>) w))"

definition merge_meta :: "ptr \<Rightarrow> ptr \<Rightarrow> world \<Rightarrow> panic + world" where
  "merge_meta e o' w =
     (case load o' w of
        Inl p \<Rightarrow> Inl p
      | Inr ov \<Rightarrow> append_meta e (Meta ov) w)"

definition MergeErrors :: "go_error \<Rightarrow> go_error \<Rightarrow> world \<Rightarrow> panic + go_error \<times> world" where
  "MergeErrors err other w =
     (if err = ErrNil then
        (if other = ErrNil then Inr (ErrNil, w)
         else (case asErrorResponse other w of
                 Inl p \<Rightarrow> Inl p
               | Inr (o', w') \<Rightarrow> Inr (ErrResp o', w')))
      else if other = ErrNil then
        (case asErrorResponse err w of
           Inl p \<Rightarrow> Inl p
         | Inr (e, w') \<Rightarrow> Inr (ErrResp e, w'))
      else
        (case asErrorResponse err w of
           Inl p \<Rightarrow> Inl p
         | Inr (e, w1) \<Rightarrow>
             (case asErrorResponse other w1 of
                Inl p \<Rightarrow> Inl p
              | Inr (o', w2) \<Rightarrow>
                  (case merge_switch e o' w2 of
                     Inl p \<Rightarrow> Inl p
                   | Inr w3 \<Rightarrow>
                       (case merge_detail e o' w3 of
                          Inl p \<Rightarrow> Inl p
                        | Inr w4 \<Rightarrow>
                            (case merge_meta e o' w4 of
                               Inl p \<Rightarrow> Inl p
                             | Inr w5 \<Rightarrow> Inr (ErrResp e, w5)))))))"

text \<open>
  The structured form of an error in a state: the cell that \<open>asErrorResponse\<close> yields for
  it, when there is one.
\<close>

definition structured :: "go_error \<Rightarrow> world \<Rightarrow> ErrorResponse option" where
  "structured err w =
     (case asErrorResponse err w of
        Inl p \<Rightarrow> None
      | Inr (e, w') \<Rightarrow> (case load e w' of Inl p \<Rightarrow> None | Inr r \<Rightarrow> Some r))"

text \<open>
  The arguments a caller can build without a nil pointer: the nil interface, an error of
  another type, and a pointer to a cell of the store. A nil \<open>*ErrorResponse\<close> stored in an
  \<open>error\<close> makes a non-nil interface, and is not among them.
\<close>

definition well_formed :: "world \<Rightarrow> go_error \<Rightarrow> bool" where
  "well_formed w err =
     (case err of
        ErrNil \<Rightarrow> True
      | ErrOther msg \<Rightarrow> True
      | ErrResp p \<Rightarrow> (case p of Null \<Rightarrow> False | Addr n \<Rightarrow> n < length (heap w)))"

subsection \<open>Formatting\<close>

text \<open>
  \<open>fmt.Sprintf("%v", x)\<close>: a string prints as itself, the nil interface as \<open><nil>\<close>,
  a value with an \<open>Error()\<close> method as that text, else one with a \<open>String()\<close> method as
  that text, else its default rendering.
\<close>

definition fmt_v :: "go_value \<Rightarrow> string" where
  "fmt_v x =
     (case x of
        GoString s \<Rightarrow> s
      | GoNil \<Rightarrow> ''<nil>''
      | GoDyn e s d g \<Rightarrow>
          (case e of Some m \<Rightarrow> m | None \<Rightarrow> (case s of Some t \<Rightarrow> t | None \<Rightarrow> d)))"

text \<open>
  \<open>strconv.Quote\<close>, which is what \<open>%#v\<close> prints for a string. The string is read rune by
  rune. \<open>decode_rune\<close> is \<open>utf8.DecodeRuneInString\<close>: the rune and its width in bytes, and
  \<open>(0xFFFD, 1)\<close> for a byte that starts no well-formed sequence.
\<close>

definition hex_digit :: "nat \<Rightarrow> char" where
  "hex_digit n = ''0123456789abcdef'' ! (n mod 16)"

definition decode_rune :: "string \<Rightarrow> nat \<times> nat" where
  "decode_rune s =
     (case s of
        [] \<Rightarrow> (0xFFFD, 0)
      | c # cs \<Rightarrow>
          (let n = length s; s0 = (of_char c :: nat) in
           if s0 < 0x80 then (s0, 1)
           else if s0 < 0xC2 \<or> 0xF4 < s0 then (0xFFFD, 1)
           else
             (let sz = (if s0 < 0xE0 then 2 else if s0 < 0xF0 then 3 else 4 :: nat);
                  lo = (if s0 = 0xE0 then 0xA0 else if s0 = 0xF0 then 0x90 else 0x80 :: nat);
                  hi = (if s0 = 0xED then 0x9F else if s0 = 0xF4 then 0x8F else 0xBF :: nat)
              in if n < sz then (0xFFFD, 1)
                 else
                   (let s1 = (of_char (s ! 1) :: nat) in
                    if s1 < lo \<or> hi < s1 then (0xFFFD, 1)
                    else if sz \<le> 2 then ((s0 mod 32) * 64 + s1 mod 64, 2)
                    else
                      (let s2 = (of_char (s ! 2) :: nat) in
                       if s2 < 0x80 \<or> 0xBF < s2 then (0xFFFD, 1)
                       else if sz \<le> 3
                       then ((s0 mod 16) * 4096 + (s1 mod 64) * 64 + s2 mod 64, 3)
                       else
                         (let s3 = (of_char (s ! 3) :: nat) in
                          if s3 < 0x80 \<or> 0xBF < s3 then (0xFFFD, 1)
                          else ((s0 mod 8) * 262144 + (s1 mod 64) * 4096
                                + (s2 mod 64) * 64 + s3 mod 64, 4)))))))"

text \<open>\<open>utf8.AppendRune\<close>: the bytes of a rune.\<close>

definition encode_rune :: "nat \<Rightarrow> string" where
  "encode_rune r =
     (if r \<le> 0x7F then [char_of r]
      else if r \<le> 0x7FF then [char_of (0xC0 + r div 64), char_of (0x80 + r mod 64)]
      else
        (let r' = (if 0x10FFFF < r \<or> (0xD800 \<le> r \<and> r \<le> 0xDFFF) then 0xFFFD else r) in
         if r' \<le> 0xFFFF
         then [char_of (0xE0 + r' div 4096), char_of (0x80 + r' div 64 mod 64),
               char_of (0x80 + r' mod 64)]
         else [char_of (0xF0 + r' div 262144), char_of (0x80 + r' div 4096 mod 64),
               char_of (0x80 + r' div 64 mod 64), char_of (0x80 + r' mod 64)]))"

text \<open>
  \<open>strconv.IsPrint\<close>: decided on the spot up to U+00FF, and by the tables of the Go
  library above it. The tables are not part of this repository; they are the parameter
  \<open>tbl\<close>.
\<close>

definition is_print :: "(nat \<Rightarrow> bool) \<Rightarrow> nat \<Rightarrow> bool" where
  "is_print tbl r =
     (if r \<le> 0xFF then
        (if 0x20 \<le> r \<and> r \<le> 0x7E then True
         else if 0xA1 \<le> r \<and> r \<le> 0xFF then r \<noteq> 0xAD
         else False)
      else tbl r)"

text \<open>
  The escape of one rune between double quotes: the quote and the backslash get a
  backslash, a printable rune is written in UTF-8, the control characters that have a
  letter escape use it, the other ones below U+0020 and U+007F are written \<open>\xNN\<close>, and what
  is left \<open>\uNNNN\<close> or \<open>\UNNNNNNNN\<close>.
\<close>

definition escaped_rune :: "(nat \<Rightarrow> bool) \<Rightarrow> nat \<Rightarrow> string" where
  "escaped_rune tbl r =
     (if r = 0x22 \<or> r = 0x5C then [CHR 0x5C, char_of r]
      else if is_print tbl r then encode_rune r
      else if r = 7 then [CHR 0x5C, CHR ''a'']
      else if r = 8 then [CHR 0x5C, CHR ''b'']
      else if r = 12 then [CHR 0x5C, CHR ''f'']
      else if r = 10 then [CHR 0x5C, CHR ''n'']
      else if r = 13 then [CHR 0x5C, CHR ''r'']
      else if r = 9 then [CHR 0x5C, CHR ''t'']
      else if r = 11 then [CHR 0x5C, CHR ''v'']
      else if r < 0x20 \<or> r = 0x7F
      then [CHR 0x5C, CHR ''x'', hex_digit (r div 16), hex_digit r]
      else
        (let r' = (if 0x10FFFF < r \<or> (0xD800 \<le> r \<and> r \<le> 0xDFFF) then 0xFFFD else r) in
         if r' < 0x10000
         then [CHR 0x5C, CHR ''u'', hex_digit (r' div 4096), hex_digit (r' div 256),
               hex_digit (r' div 16), hex_digit r']
         else [CHR 0x5C, CHR ''U'', hex_digit (r' div 268435456), hex_digit (r' div 16777216),
               hex_digit (r' div 1048576), hex_digit (r' div 65536),
               hex_digit (r' div 4096), hex_digit (r' div 256),
               hex_digit (r' div 16), hex_digit r']))"

text \<open>The loop over the string; a byte outside a well-formed sequence is written \<open>\xNN\<close>.\<close>

function quote_runes :: "(nat \<Rightarrow> bool) \<Rightarrow> string \<Rightarrow> string" where
  "quote_runes tbl s =
     (case s of
        [] \<Rightarrow> []
      | c # cs \<Rightarrow>
          (case decode_rune s of
             (r, width) \<Rightarrow>
               (if width = 1 \<and> r = 0xFFFD
                then [CHR 0x5C, CHR ''x'', hex_digit (of_char c div 16), hex_digit (of_char c)]
                else escaped_rune tbl r)
               @ quote_runes tbl (drop width s)))"
  by pat_completeness auto
termination
  by (relation "measure (\<lambda>(tbl, s). length s)") (auto simp: decode_rune_def Let_def split: if_splits)

definition go_quote :: "(nat \<Rightarrow> bool) \<Rightarrow> string \<Rightarrow> string" where
  "go_quote tbl s = CHR 0x22 # quote_runes tbl s @ [CHR 0x22]"

text \<open>\<open>fmt.Sprintf("%#v", x)\<close>.\<close>

definition fmt_sharp_v :: "(nat \<Rightarrow> bool) \<Rightarrow> go_value \<Rightarrow> string" where
  "fmt_sharp_v tbl x =
     (case x of
        GoString s \<Rightarrow> go_quote tbl s
      | GoNil \<Rightarrow> ''<nil>''
      | GoDyn e s d g \<Rightarrow> g)"

subsection \<open>newErrorID\<close>

definition b64_char :: "nat \<Rightarrow> char" where
  "b64_char n =
     ''ABCDEFGHIJKLMNOPQRSTUVWXYZabcdefghijklmnopqrstuvwxyz0123456789+/'' ! (n mod 64)"

text \<open>\<open>base64.StdEncoding.EncodeToString\<close>: three bytes give four characters.\<close>

fun base64_encode :: "8 word list \<Rightarrow> string" where
  "base64_encode (a # b # c # rest) =
     (let val = unat a * 65536 + unat b * 256 + unat c
      in [b64_char (val div 262144), b64_char (val div 4096), b64_char (val div 64),
          b64_char val]) @ base64_encode rest"
| "base64_encode [a, b] =
     (let val = unat a * 65536 + unat b * 256
      in [b64_char (val div 262144), b64_char (val div 4096), b64_char (val div 64),
          CHR ''=''])"
| "base64_encode [a] =
     (let val = unat a * 65536
      in [b64_char (val div 262144), b64_char (val div 4096), CHR ''='', CHR ''=''])"
| "base64_encode [] = []"

text \<open>
  Six bytes are requested from the random source; the error of \<open>io.ReadFull\<close> is dropped,
  so the bytes the source did not deliver stay zero.
\<close>

definition newErrorID :: "world \<Rightarrow> string \<times> world" where
  "newErrorID w =
     (let got = take 6 (entropy w);
          b = got @ replicate (6 - length got) 0
      in (base64_encode b, w\<lparr>entropy := drop 6 (entropy w)\<rparr>))"

subsection \<open>Error classes\<close>

text \<open>The type switch on \<open>message\<close>.\<close>

definition message_text :: "go_value \<Rightarrow> string" where
  "message_text message =
     (case message of
        GoString actual \<Rightarrow> actual
      | GoNil \<Rightarrow> fmt_v message
      | GoDyn e s d g \<Rightarrow>
          (case e of
             Some m \<Rightarrow> m
           | None \<Rightarrow> (case s of Some t \<Rightarrow> t | None \<Rightarrow> fmt_v message)))"

text \<open>
  The loop over \<open>keyvals\<close>, with its index \<open>i\<close> and the slice \<open>meta\<close> it fills; an index
  outside \<open>meta\<close> would panic.
\<close>

function build_meta :: "go_value list \<Rightarrow> nat \<Rightarrow> gomap list \<Rightarrow> panic + gomap list" where
  "build_meta keyvals i meta =
     (if i < length keyvals then
        (let k = keyvals ! i;
             v = (if i + 1 < length keyvals then keyvals ! (i + 1) else GoString ''MISSING'')
         in if i div 2 < length meta
            then build_meta keyvals (i + 2) (meta[i div 2 := [(fmt_v k, v)]])
            else Inl IndexOutOfRange)
      else Inr meta)"
  by pat_completeness auto
termination
  by (relation "measure (\<lambda>(keyvals, i, meta). length keyvals - i)") auto

text \<open>
  \<open>NewErrorClass code status\<close> is the closure; its two further arguments are the
  closure's \<open>message\<close> and \<open>keyvals\<close>.
\<close>

definition NewErrorClass ::
  "string \<Rightarrow> int \<Rightarrow> go_value \<Rightarrow> go_value list \<Rightarrow> world \<Rightarrow> panic + go_error \<times> world" where
  "NewErrorClass code status message keyvals w =
     (let msg = message_text message
      in case build_meta keyvals 0 (replicate ((length keyvals + 1) div 2) []) of
           Inl p \<Rightarrow> Inl p
         | Inr meta \<Rightarrow>
             (case newErrorID w of
                (ident, w1) \<Rightarrow>
                  (case alloc \<lparr>ID = ident, Code = code, Status = status,
                               Detail = msg, Meta = meta\<rparr> w1 of
                     (p, w2) \<Rightarrow> Inr (ErrResp p, w2))))"

definition ErrInvalidRequest :: "go_value \<Rightarrow> go_value list \<Rightarrow> world \<Rightarrow> panic + go_error \<times> world" where
  "ErrInvalidRequest = NewErrorClass ''invalid_request'' 400"

definition ErrInternal :: "go_value \<Rightarrow> go_value list \<Rightarrow> world \<Rightarrow> panic + go_error \<times> world" where
  "ErrInternal = NewErrorClass ''internal'' 500"

definition InvalidParamTypeError ::
  "(nat \<Rightarrow> bool) \<Rightarrow> string \<Rightarrow> go_value \<Rightarrow> string \<Rightarrow> world \<Rightarrow> panic + go_error \<times> world" where
  "InvalidParamTypeError tbl name val expected w =
     (let msg = ''invalid value '' @ fmt_sharp_v tbl val @ '' for parameter ''
                @ fmt_sharp_v tbl (GoString name) @ '', must be a '' @ expected
      in ErrInvalidRequest (GoString msg)
           [GoString ''param'', GoString name, GoString ''value'', val,
            GoString ''expected'', GoString expected] w)"

definition MissingParamError ::
  "(nat \<Rightarrow> bool) \<Rightarrow> string \<Rightarrow> world \<Rightarrow> panic + go_error \<times> world" where
  "MissingParamError tbl name w =
     (let msg = ''missing required parameter '' @ fmt_sharp_v tbl (GoString name)
      in ErrInvalidRequest (GoString msg) [GoString ''name'', GoString name] w)"

text \<open>
  Two helpers to state results: running a second call in the state the first one left,
  and the structured form of what a call returned.
\<close>

definition and_then ::
  "panic + 'a \<times> world \<Rightarrow> ('a \<Rightarrow> world \<Rightarrow> panic + 'b \<times> world) \<Rightarrow> panic + 'b \<times> world" where
  "and_then m f = (case m of Inl p \<Rightarrow> Inl p | Inr (x, w) \<Rightarrow> f x w)"

definition returned :: "panic + go_error \<times> world \<Rightarrow> ErrorResponse option" where
  "returned m = (case m of Inl p \<Rightarrow> None | Inr (r, w) \<Rightarrow> structured r w)"

subsection \<open>Example values\<close>

text \<open>Two cells as error classes build them, and a state that holds them.\<close>

definition ex_not_found :: ErrorResponse where
  "ex_not_found = \<lparr>ID = ''AQIDBAUG'', Code = ''not_found'', Status = 404,
                    Detail = ''no such bottle'', Meta = [[(''id'', GoString ''7'')]]\<rparr>"

definition ex_bad_request :: ErrorResponse where
  "ex_bad_request = \<lparr>ID = ''BwgJCgsM'', Code = ''bad_request'', Status = 400,
                      Detail = ''bad body'', Meta = [[(''field'', GoString ''name'')]]\<rparr>"

definition ex_not_found_too :: ErrorResponse where
  "ex_not_found_too = \<lparr>ID = ''DQ4PEBES'', Code = ''not_found'', Status = 404,
                        Detail = ''no such account'', Meta = [[(''id'', GoString ''3'')]]\<rparr>"

text \<open>A cell as a client decodes it from a response body, with a two-key map.\<close>

definition ex_two_keys :: ErrorResponse where
  "ex_two_keys = \<lparr>ID = ''ExQVFhcY'', Code = ''not_found'', Status = 404,
                   Detail = ''no such account'',
                   Meta = [[(''id'', GoString ''3''), (''kind'', GoString ''account'')]]\<rparr>"

definition ex_world :: world where
  "ex_world = \<lparr>heap = [ex_not_found, ex_bad_request], entropy = []\<rparr>"

text \<open>The state after \<open>ErrInternal("boom")\<close> in an empty state whose random source is silent.\<close>

definition ex_internal_world :: world where
  "ex_internal_world =
     \<lparr>heap = [\<lparr>ID = ''AAAAAAAA'', Code = ''internal'', Status = 500, Detail = ''boom'',
                Meta = []\<rparr>],
        entropy = []\<rparr>"

section \<open>Properties\<close>

subsection \<open>The merge, cell by cell\<close>

text \<open>
  With a valid address the two loops of the merge never panic, and they append to the
  metadata of the cell one single-key map per entry, map by map.
\<close>

lemma append_entries_Addr:
  "n < length (heap w) \<Longrightarrow>
   append_entries (Addr n) kvs w =
     Inr (w\<lparr>heap := (heap w)[n := (heap w ! n)\<lparr>Meta := Meta (heap w ! n) @ map (\<lambda>kv. [kv]) kvs\<rparr>]\<rparr>)"
proof (induction kvs arbitrary: w)
  case Nil
  then show ?case by simp
next
  case (Cons kv kvs)
  obtain k v where kv: "kv = (k, v)" by (cases kv)
  from Cons.prems show ?case
    by (simp add: kv load_def store_def Cons.IH)
qed

lemma append_meta_Addr:
  "n < length (heap w) \<Longrightarrow>
   append_meta (Addr n) vals w =
     Inr (w\<lparr>heap := (heap w)[n := (heap w ! n)\<lparr>Meta := Meta (heap w ! n) @ concat (map (map (\<lambda>kv. [kv])) vals)\<rparr>]\<rparr>)"
proof (induction vals arbitrary: w)
  case Nil
  then show ?case by simp
next
  case (Cons val vals)
  then show ?case
    by (simp add: append_entries_Addr)
qed

lemma structured_cases [consumes 1, case_names resp other]:
  assumes "structured a w = Some ea"
  obtains (resp) i where "a = ErrResp (Addr i)" "i < length (heap w)" "ea = heap w ! i"
  | (other) m where "a = ErrOther m"
      "ea = \<lparr>ID = [], Code = ''internal_error'', Status = 500, Detail = m, Meta = []\<rparr>"
  using assms
  by (auto simp: structured_def asErrorResponse_def load_def alloc_def
           split: go_error.splits ptr.splits if_splits)

lemma map_ID_update: "i < length h \<Longrightarrow> ID r = ID (h ! i) \<Longrightarrow> map ID (h[i := r]) = map ID h"
  by (simp add: map_update list_update_same_conv)

lemma MergeErrors_both:
  assumes "structured a w = Some ea" and "structured b w = Some eb"
  shows "\<exists>p w1 w'. asErrorResponse a w = Inr (p, w1) \<and>
           MergeErrors a b w = Inr (ErrResp p, w') \<and>
           entropy w' = entropy w \<and>
           map ID (take (length (heap w)) (heap w')) = map ID (heap w) \<and>
           structured (ErrResp p) w' =
             Some (ea\<lparr>Status := (if Status ea = 500 \<or> Status eb = 500 then 500
                                 else if Status ea \<noteq> Status eb \<or> Code ea \<noteq> Code eb then 400
                                 else Status ea),
                      Code := (if Status ea = 500 then Code ea
                               else if Status eb = 500 then ''internal_error''
                               else if Status ea \<noteq> Status eb \<or> Code ea \<noteq> Code eb then ''bad_request''
                               else Code ea),
                      Detail := Detail ea @ ''; '' @ Detail eb,
                      Meta := Meta ea @ concat (map (map (\<lambda>kv. [kv])) (Meta eb))\<rparr>)"
using assms(1)
proof (cases rule: structured_cases)
  case (resp i)
  from assms(2) show ?thesis
  proof (cases rule: structured_cases)
    case (resp j)
    with \<open>a = ErrResp (Addr i)\<close> \<open>i < length (heap w)\<close> \<open>ea = heap w ! i\<close> show ?thesis
      by (simp add: MergeErrors_def asErrorResponse_def structured_def merge_switch_def
            merge_detail_def merge_meta_def load_def store_def append_meta_Addr nth_list_update
            map_ID_update)
  next
    case (other m)
    with \<open>a = ErrResp (Addr i)\<close> \<open>i < length (heap w)\<close> \<open>ea = heap w ! i\<close> show ?thesis
      by (simp add: MergeErrors_def asErrorResponse_def structured_def merge_switch_def alloc_def
            merge_detail_def merge_meta_def load_def store_def append_meta_Addr nth_list_update
            nth_append map_ID_update list_update_append1)
  qed
next
  case (other m)
  note a = this
  from assms(2) show ?thesis
  proof (cases rule: structured_cases)
    case (resp j)
    with a show ?thesis
      by (simp add: MergeErrors_def asErrorResponse_def structured_def merge_switch_def alloc_def
            merge_detail_def merge_meta_def load_def store_def append_meta_Addr nth_list_update
            nth_append)
  next
    case (other m')
    with a show ?thesis
      by (simp add: MergeErrors_def asErrorResponse_def structured_def merge_switch_def alloc_def
            merge_detail_def merge_meta_def load_def store_def append_meta_Addr nth_list_update
            nth_append)
  qed
qed

lemma MergeErrors_right_nil:
  assumes "structured a w = Some ea"
  shows "\<exists>p w'. asErrorResponse a w = Inr (p, w') \<and>
           MergeErrors a ErrNil w = Inr (ErrResp p, w') \<and>
           entropy w' = entropy w \<and>
           map ID (take (length (heap w)) (heap w')) = map ID (heap w) \<and>
           structured (ErrResp p) w' = Some ea"
  using assms
  by (cases rule: structured_cases)
     (simp_all add: MergeErrors_def asErrorResponse_def structured_def alloc_def load_def)

subsection \<open>The loop of an error class\<close>

declare build_meta.simps [simp del]

lemma build_meta_done: "\<not> i < length kvs \<Longrightarrow> build_meta kvs i meta = Inr meta"
  by (subst build_meta.simps) simp

lemma build_meta_step:
  "i < length kvs \<Longrightarrow> i div 2 < length meta \<Longrightarrow>
   build_meta kvs i meta =
     build_meta kvs (i + 2)
       (meta[i div 2 := [(fmt_v (kvs ! i),
                          if i + 1 < length kvs then kvs ! (i + 1) else GoString ''MISSING'')]])"
  by (subst build_meta.simps) (simp add: Let_def)

lemma half_lt: "even (i::nat) \<Longrightarrow> i < n \<Longrightarrow> i div 2 < (n + 1) div 2"
  by (elim evenE) auto

lemma build_meta_inv:
  "even i \<Longrightarrow> length meta = (length kvs + 1) div 2 \<Longrightarrow>
   \<exists>meta'. build_meta kvs i meta = Inr meta' \<and> length meta' = length meta \<and>
     (\<forall>j < length meta. meta' ! j =
        (if i div 2 \<le> j
         then [(fmt_v (kvs ! (2 * j)),
                if 2 * j + 1 < length kvs then kvs ! (2 * j + 1) else GoString ''MISSING'')]
         else meta ! j))"
proof (induction kvs i meta rule: build_meta.induct)
  case (1 keyvals i meta)
  show ?case
  proof (cases "i < length keyvals")
    case False
    from "1.prems"(1) obtain k where k: "i = 2 * k" by (elim evenE)
    from False k "1.prems"(2) have "length meta \<le> i div 2" by simp
    with False show ?thesis by (simp add: build_meta_done)
  next
    case True
    from "1.prems"(1) obtain k where k: "i = 2 * k" by (elim evenE)
    have idx: "i div 2 < length meta"
      using half_lt [OF "1.prems"(1) True] "1.prems"(2) by simp
    define v where "v = (if i + 1 < length keyvals then keyvals ! (i + 1) else GoString ''MISSING'')"
    define m where "m = meta[i div 2 := [(fmt_v (keyvals ! i), v)]]"
    have lm: "length m = (length keyvals + 1) div 2"
      using "1.prems"(2) by (simp add: m_def)
    have ev: "even (i + 2)" using "1.prems"(1) by simp
    have "\<exists>meta'. build_meta keyvals (i + 2) m = Inr meta' \<and> length meta' = length m \<and>
     (\<forall>j < length m. meta' ! j =
        (if (i + 2) div 2 \<le> j
         then [(fmt_v (keyvals ! (2 * j)),
                if 2 * j + 1 < length keyvals then keyvals ! (2 * j + 1) else GoString ''MISSING'')]
         else m ! j))"
      unfolding m_def v_def
      by (rule "1.IH" [OF True refl refl idx ev]) (use lm in \<open>simp add: m_def v_def\<close>)
    then obtain meta' where m': "build_meta keyvals (i + 2) m = Inr meta'"
      "length meta' = length m"
      "\<And>j. j < length m \<Longrightarrow> meta' ! j =
        (if (i + 2) div 2 \<le> j
         then [(fmt_v (keyvals ! (2 * j)),
                if 2 * j + 1 < length keyvals then keyvals ! (2 * j + 1) else GoString ''MISSING'')]
         else m ! j)"
      by blast
    have step: "build_meta keyvals i meta = Inr meta'"
      using build_meta_step [OF True idx] m'(1) by (simp add: m_def v_def)
    have len: "length meta' = length meta" using m'(2) by (simp add: m_def)
    have "meta' ! j =
        (if i div 2 \<le> j
         then [(fmt_v (keyvals ! (2 * j)),
                if 2 * j + 1 < length keyvals then keyvals ! (2 * j + 1) else GoString ''MISSING'')]
         else meta ! j)" if j: "j < length meta" for j
    proof -
      have jm: "j < length m" using j by (simp add: m_def)
      consider "j < k" | "j = k" | "k < j" by linarith
      then show ?thesis
      proof cases
        case 1
        with m'(3) [OF jm] k show ?thesis by (simp add: m_def)
      next
        case 2
        with m'(3) [OF jm] k j show ?thesis by (simp add: m_def v_def)
      next
        case 3
        with m'(3) [OF jm] k show ?thesis by (simp add: m_def)
      qed
    qed
    with step len show ?thesis by blast
  qed
qed

text \<open>The loop on the argument lists of the two helpers, the id and the quoting.\<close>

lemma build_meta_two: "build_meta [k, v] 0 [[]] = Inr [[(fmt_v k, v)]]"
  by (simp add: build_meta.simps)

lemma build_meta_six:
  "build_meta [k1, v1, k2, v2, k3, v3] 0 [[], [], []]
     = Inr [[(fmt_v k1, v1)], [(fmt_v k2, v2)], [(fmt_v k3, v3)]]"
proof -
  let ?kvs = "[k1, v1, k2, v2, k3, v3]"
  have upd: "[a, b, c][2 := x] = [a, b, x]" for a b c x :: gomap
    by (simp add: numeral_2_eq_2)
  have s0: "build_meta ?kvs 0 [[], [], []] = build_meta ?kvs 2 [[(fmt_v k1, v1)], [], []]"
    using build_meta_step [of 0 ?kvs "[[], [], []]"] by (simp del: add_2_eq_Suc add_2_eq_Suc')
  have s2: "build_meta ?kvs 2 [[(fmt_v k1, v1)], [], []]
              = build_meta ?kvs 4 [[(fmt_v k1, v1)], [(fmt_v k2, v2)], []]"
    using build_meta_step [of 2 ?kvs "[[(fmt_v k1, v1)], [], []]"] by (simp del: add_2_eq_Suc add_2_eq_Suc')
  have s4: "build_meta ?kvs 4 [[(fmt_v k1, v1)], [(fmt_v k2, v2)], []]
              = build_meta ?kvs 6 [[(fmt_v k1, v1)], [(fmt_v k2, v2)], [(fmt_v k3, v3)]]"
    using build_meta_step [of 4 ?kvs "[[(fmt_v k1, v1)], [(fmt_v k2, v2)], []]"]
    by (simp add: upd del: add_2_eq_Suc add_2_eq_Suc')
  have s6: "build_meta ?kvs 6 [[(fmt_v k1, v1)], [(fmt_v k2, v2)], [(fmt_v k3, v3)]]
              = Inr [[(fmt_v k1, v1)], [(fmt_v k2, v2)], [(fmt_v k3, v3)]]"
    by (rule build_meta_done) simp
  show ?thesis by (simp only: s0 s2 s4 s6)
qed

lemma length_newErrorID: "length (fst (newErrorID w)) = 8"
proof -
  define b where "b = take 6 (entropy w) @ replicate (6 - length (take 6 (entropy w))) (0 :: 8 word)"
  have "length b = 6" by (simp add: b_def)
  then obtain b0 b1 b2 b3 b4 b5 where "b = [b0, b1, b2, b3, b4, b5]"
    by (auto simp: eval_nat_numeral length_Suc_conv)
  then have "length (base64_encode b) = 8" by (simp add: Let_def)
  then show ?thesis by (simp add: newErrorID_def b_def Let_def)
qed

lemma NewErrorClass_result:
  "\<exists>meta. NewErrorClass code status message keyvals w =
            Inr (ErrResp (Addr (length (heap w))),
                 \<lparr>heap = heap w @ [\<lparr>ID = fst (newErrorID w), Code = code, Status = status,
                                    Detail = message_text message, Meta = meta\<rparr>],
                    entropy = drop 6 (entropy w)\<rparr>) \<and>
          length meta = (length keyvals + 1) div 2 \<and>
          (\<forall>j < length meta. meta ! j =
             [(fmt_v (keyvals ! (2 * j)),
               if 2 * j + 1 < length keyvals then keyvals ! (2 * j + 1) else GoString ''MISSING'')])"
proof -
  let ?m0 = "replicate ((length keyvals + 1) div 2) ([] :: gomap)"
  have "even (0::nat)" and "length ?m0 = (length keyvals + 1) div 2" by simp_all
  from build_meta_inv [OF this] obtain meta where
    m: "build_meta keyvals 0 ?m0 = Inr meta" "length meta = length ?m0"
       "\<forall>j < length ?m0. meta ! j =
          (if 0 div 2 \<le> j
           then [(fmt_v (keyvals ! (2 * j)),
                  if 2 * j + 1 < length keyvals then keyvals ! (2 * j + 1) else GoString ''MISSING'')]
           else ?m0 ! j)"
    by blast
  have "NewErrorClass code status message keyvals w =
            Inr (ErrResp (Addr (length (heap w))),
                 \<lparr>heap = heap w @ [\<lparr>ID = fst (newErrorID w), Code = code, Status = status,
                                    Detail = message_text message, Meta = meta\<rparr>],
                    entropy = drop 6 (entropy w)\<rparr>)"
    using m(1) by (simp add: NewErrorClass_def newErrorID_def alloc_def Let_def)
  moreover have "length meta = (length keyvals + 1) div 2" using m(2) by simp
  moreover have "\<forall>j < length meta. meta ! j =
             [(fmt_v (keyvals ! (2 * j)),
               if 2 * j + 1 < length keyvals then keyvals ! (2 * j + 1) else GoString ''MISSING'')]"
    using m(2,3) by simp
  ultimately show ?thesis by blast
qed

declare quote_runes.simps [simp del]

lemma quote_runes_Nil: "quote_runes tbl [] = []"
  by (simp add: quote_runes.simps)

lemma quote_runes_plain:
  assumes "0x20 \<le> (of_char c :: nat)" and "(of_char c :: nat) \<le> 0x7E"
    and "c \<noteq> CHR 0x22" and "c \<noteq> CHR 0x5C"
  shows "quote_runes tbl (c # cs) = c # quote_runes tbl cs"
proof -
  have d: "decode_rune (c # cs) = (of_char c, 1)"
    using assms(2) by (simp add: decode_rune_def Let_def)
  have "(of_char c :: nat) \<noteq> 0x22" "(of_char c :: nat) \<noteq> 0x5C"
    using assms(3,4) of_char_eq_iff [of c "CHR 0x22", where ?'a = nat]
      of_char_eq_iff [of c "CHR 0x5C", where ?'a = nat] by simp_all
  then have e: "escaped_rune tbl (of_char c) = [c]"
    using assms(1,2) by (simp add: escaped_rune_def is_print_def encode_rune_def)
  have "(of_char c :: nat) \<noteq> 0xFFFD" using assms(2) by simp
  with d e show ?thesis by (subst quote_runes.simps) simp
qed

lemma go_quote_examples: "go_quote tbl ''id'' = [CHR 0x22] @ ''id'' @ [CHR 0x22]"
    "go_quote tbl ''xx'' = [CHR 0x22] @ ''xx'' @ [CHR 0x22]"
    "go_quote tbl ''sort'' = [CHR 0x22] @ ''sort'' @ [CHR 0x22]"
    by (simp_all add: go_quote_def quote_runes_plain quote_runes_Nil)

lemma replicate_six: "replicate 6 x = [x, x, x, x, x, x]"
  by (simp add: eval_nat_numeral)

lemma newErrorID_silent: "newErrorID \<lparr>heap = h, entropy = []\<rparr> = (''AAAAAAAA'', \<lparr>heap = h, entropy = []\<rparr>)"
  by (simp add: newErrorID_def replicate_six b64_char_def)

subsection \<open>Claims about MergeErrors\<close>

lemma concat_singletons:
  "\<forall>m \<in> set ms. length m = 1 \<Longrightarrow> concat (map (map (\<lambda>kv. [kv])) ms) = ms"
proof (induction ms)
  case Nil
  then show ?case by simp
next
  case (Cons m ms)
  from Cons.prems have "length m = 1" by simp
  then obtain kv where "m = [kv]" by (cases m) auto
  with Cons show ?case by simp
qed

text \<open>
  C1. When both errors are present and at least one of them, in structured form, has status
  500, \<open>MergeErrors\<close> returns the structured form of the first one (the very pointer when
  the first error is a \<open>*ErrorResponse\<close>), with status 500, with code
  \<open>internal_error\<close> if the first one did not have status 500, its id kept, the detail of
  the second appended after \<open>"; "\<close> and the metadata of the second appended.
\<close>

theorem MergeErrors_internal_wins:
  assumes "structured a w = Some ea" and "structured b w = Some eb"
    and "Status ea = 500 \<or> Status eb = 500"
  shows "\<exists>p w1 w' r. asErrorResponse a w = Inr (p, w1) \<and>
           MergeErrors a b w = Inr (ErrResp p, w') \<and>
           (\<forall>q. a = ErrResp q \<longrightarrow> ErrResp p = a) \<and>
           structured (ErrResp p) w' = Some r \<and>
           Status r = 500 \<and>
           (Status ea \<noteq> 500 \<longrightarrow> Code r = ''internal_error'') \<and>
           ID r = ID ea \<and>
           Detail r = Detail ea @ ''; '' @ Detail eb \<and>
           Meta r = Meta ea @ concat (map (map (\<lambda>kv. [kv])) (Meta eb))"
proof -
  from MergeErrors_both [OF assms(1,2)] obtain p w1 w' r where
    "asErrorResponse a w = Inr (p, w1)" "MergeErrors a b w = Inr (ErrResp p, w')"
    "structured (ErrResp p) w' = Some r"
    and r: "r = ea\<lparr>Status := (if Status ea = 500 \<or> Status eb = 500 then 500
                                 else if Status ea \<noteq> Status eb \<or> Code ea \<noteq> Code eb then 400
                                 else Status ea),
                      Code := (if Status ea = 500 then Code ea
                               else if Status eb = 500 then ''internal_error''
                               else if Status ea \<noteq> Status eb \<or> Code ea \<noteq> Code eb then ''bad_request''
                               else Code ea),
                      Detail := Detail ea @ ''; '' @ Detail eb,
                      Meta := Meta ea @ concat (map (map (\<lambda>kv. [kv])) (Meta eb))\<rparr>"
    by blast
  moreover from \<open>asErrorResponse a w = Inr (p, w1)\<close> have "\<forall>q. a = ErrResp q \<longrightarrow> ErrResp p = a"
    by (auto simp: asErrorResponse_def)
  moreover from r assms(3) have "Status r = 500" "Status ea \<noteq> 500 \<longrightarrow> Code r = ''internal_error''"
    "ID r = ID ea" "Detail r = Detail ea @ ''; '' @ Detail eb"
    "Meta r = Meta ea @ concat (map (map (\<lambda>kv. [kv])) (Meta eb))"
    by auto
  ultimately show ?thesis by blast
qed

theorem MergeErrors_internal_wins_witness:
  "structured (ErrResp (Addr 1)) ex_world = Some ex_bad_request \<and>
   structured (ErrOther ''boom'') ex_world =
     Some \<lparr>ID = [], Code = ''internal_error'', Status = 500, Detail = ''boom'', Meta = []\<rparr> \<and>
   (\<exists>w'. MergeErrors (ErrResp (Addr 1)) (ErrOther ''boom'') ex_world = Inr (ErrResp (Addr 1), w') \<and>
      structured (ErrResp (Addr 1)) w' =
        Some \<lparr>ID = ''BwgJCgsM'', Code = ''internal_error'', Status = 500,
              Detail = ''bad body; boom'', Meta = [[(''field'', GoString ''name'')]]\<rparr>)"
proof -
  let ?eb = "\<lparr>ID = [], Code = ''internal_error'', Status = 500, Detail = ''boom'', Meta = []\<rparr>"
  have h1: "structured (ErrResp (Addr 1)) ex_world = Some ex_bad_request"
    by (simp add: structured_def asErrorResponse_def load_def ex_world_def)
  have h2: "structured (ErrOther ''boom'') ex_world = Some ?eb"
    by (simp add: structured_def asErrorResponse_def load_def alloc_def ex_world_def)
  have h3: "Status ex_bad_request = 500 \<or> Status ?eb = 500" by simp
  from MergeErrors_internal_wins [OF h1 h2 h3] obtain p w1 w' r where
    "MergeErrors (ErrResp (Addr 1)) (ErrOther ''boom'') ex_world = Inr (ErrResp p, w')"
    "\<forall>q. ErrResp (Addr 1) = ErrResp q \<longrightarrow> ErrResp p = ErrResp (Addr 1)"
    "structured (ErrResp p) w' = Some r" "Status r = 500"
    "Status ex_bad_request \<noteq> 500 \<longrightarrow> Code r = ''internal_error''"
    "ID r = ID ex_bad_request" "Detail r = Detail ex_bad_request @ ''; '' @ Detail ?eb"
    "Meta r = Meta ex_bad_request @ concat (map (map (\<lambda>kv. [kv])) (Meta ?eb))"
    by blast
  then have "MergeErrors (ErrResp (Addr 1)) (ErrOther ''boom'') ex_world = Inr (ErrResp (Addr 1), w')
    \<and> structured (ErrResp (Addr 1)) w' =
        Some \<lparr>ID = ''BwgJCgsM'', Code = ''internal_error'', Status = 500,
              Detail = ''bad body; boom'', Meta = [[(''field'', GoString ''name'')]]\<rparr>"
    by (cases r) (simp add: ex_bad_request_def)
  with h1 h2 show ?thesis by blast
qed

text \<open>
  C2. When both errors are present, neither has status 500 in structured form, and they
  differ in status or in code, the error returned has status 400 and code \<open>bad_request\<close>.
\<close>

theorem MergeErrors_disagreement:
  assumes "structured a w = Some ea" and "structured b w = Some eb"
    and "Status ea \<noteq> 500" and "Status eb \<noteq> 500"
    and "Status ea \<noteq> Status eb \<or> Code ea \<noteq> Code eb"
  shows "\<exists>p w' r. MergeErrors a b w = Inr (ErrResp p, w') \<and>
           structured (ErrResp p) w' = Some r \<and>
           Status r = 400 \<and> Code r = ''bad_request''"
proof -
  from MergeErrors_both [OF assms(1,2)] obtain p w' r where
    "MergeErrors a b w = Inr (ErrResp p, w')" "structured (ErrResp p) w' = Some r"
    and r: "r = ea\<lparr>Status := (if Status ea = 500 \<or> Status eb = 500 then 500
                                 else if Status ea \<noteq> Status eb \<or> Code ea \<noteq> Code eb then 400
                                 else Status ea),
                      Code := (if Status ea = 500 then Code ea
                               else if Status eb = 500 then ''internal_error''
                               else if Status ea \<noteq> Status eb \<or> Code ea \<noteq> Code eb then ''bad_request''
                               else Code ea),
                      Detail := Detail ea @ ''; '' @ Detail eb,
                      Meta := Meta ea @ concat (map (map (\<lambda>kv. [kv])) (Meta eb))\<rparr>"
    by blast
  moreover from r assms(3-5) have "Status r = 400" "Code r = ''bad_request''"
    by auto
  ultimately show ?thesis by blast
qed

theorem MergeErrors_disagreement_witness:
  "structured (ErrResp (Addr 0)) ex_world = Some ex_not_found \<and>
   structured (ErrResp (Addr 1)) ex_world = Some ex_bad_request \<and>
   Status ex_not_found \<noteq> 500 \<and> Status ex_bad_request \<noteq> 500 \<and>
   Status ex_not_found \<noteq> Status ex_bad_request \<and> Code ex_not_found \<noteq> Code ex_bad_request \<and>
   (\<exists>p w' r. MergeErrors (ErrResp (Addr 0)) (ErrResp (Addr 1)) ex_world = Inr (ErrResp p, w') \<and>
      structured (ErrResp p) w' = Some r \<and> Status r = 400 \<and> Code r = ''bad_request'')"
proof -
  have h1: "structured (ErrResp (Addr 0)) ex_world = Some ex_not_found"
    by (simp add: structured_def asErrorResponse_def load_def ex_world_def)
  have h2: "structured (ErrResp (Addr 1)) ex_world = Some ex_bad_request"
    by (simp add: structured_def asErrorResponse_def load_def ex_world_def)
  have h3: "Status ex_not_found \<noteq> 500" by (simp add: ex_not_found_def)
  have h4: "Status ex_bad_request \<noteq> 500" by (simp add: ex_bad_request_def)
  have h5: "Status ex_not_found \<noteq> Status ex_bad_request \<or> Code ex_not_found \<noteq> Code ex_bad_request"
    by (simp add: ex_not_found_def ex_bad_request_def)
  have h6: "Status ex_not_found \<noteq> Status ex_bad_request" "Code ex_not_found \<noteq> Code ex_bad_request"
    by (simp_all add: ex_not_found_def ex_bad_request_def)
  from h1 h2 h3 h4 h6 MergeErrors_disagreement [OF h1 h2 h3 h4 h5] show ?thesis by (intro conjI)
qed

text \<open>
  C3, as the claim states it, fails: an entry of the second error's metadata that is a map
  of two keys is not appended as it is, the merge appends one single-key map per key of it.
  Here the second cell holds one two-key map, and the metadata returned is not the first
  cell's followed by the second cell's.
\<close>

theorem MergeErrors_same_class_counterexample:
  "map_option Meta
     (returned (MergeErrors (ErrResp (Addr 0)) (ErrResp (Addr 1))
        \<lparr>heap = [ex_not_found, ex_two_keys], entropy = []\<rparr>))
   \<noteq> Some (Meta ex_not_found @ Meta ex_two_keys)"
  by (simp add: returned_def MergeErrors_def asErrorResponse_def structured_def merge_switch_def
        merge_detail_def merge_meta_def load_def store_def ex_not_found_def ex_two_keys_def)

text \<open>
  C3, amended. When both errors are present with the same status, not 500, and the same
  code, the error returned keeps that status and code, its detail is the first detail,
  \<open>"; "\<close> and the second detail, and its metadata is the first error's metadata followed,
  for each map of the second error's metadata in order, by one single-key map per entry of
  that map; nothing is overwritten, duplicate keys stay. When every map of the second
  error's metadata has one key, as those built by an error class have, this is the first
  metadata followed by the second.
\<close>

theorem MergeErrors_same_class:
  assumes "structured a w = Some ea" and "structured b w = Some eb"
    and "Status ea = Status eb" and "Code ea = Code eb" and "Status ea \<noteq> 500"
  shows "\<exists>p w' r. MergeErrors a b w = Inr (ErrResp p, w') \<and>
           structured (ErrResp p) w' = Some r \<and>
           Status r = Status ea \<and> Code r = Code ea \<and>
           Detail r = Detail ea @ ''; '' @ Detail eb \<and>
           Meta r = Meta ea @ concat (map (map (\<lambda>kv. [kv])) (Meta eb)) \<and>
           ((\<forall>m \<in> set (Meta eb). length m = 1) \<longrightarrow> Meta r = Meta ea @ Meta eb)"
proof -
  from MergeErrors_both [OF assms(1,2)] obtain p w' r where
    "MergeErrors a b w = Inr (ErrResp p, w')" "structured (ErrResp p) w' = Some r"
    and r: "r = ea\<lparr>Status := (if Status ea = 500 \<or> Status eb = 500 then 500
                                 else if Status ea \<noteq> Status eb \<or> Code ea \<noteq> Code eb then 400
                                 else Status ea),
                      Code := (if Status ea = 500 then Code ea
                               else if Status eb = 500 then ''internal_error''
                               else if Status ea \<noteq> Status eb \<or> Code ea \<noteq> Code eb then ''bad_request''
                               else Code ea),
                      Detail := Detail ea @ ''; '' @ Detail eb,
                      Meta := Meta ea @ concat (map (map (\<lambda>kv. [kv])) (Meta eb))\<rparr>"
    by blast
  moreover from r assms(3-5) have "Status r = Status ea" "Code r = Code ea"
    "Detail r = Detail ea @ ''; '' @ Detail eb"
    "Meta r = Meta ea @ concat (map (map (\<lambda>kv. [kv])) (Meta eb))"
    by auto
  moreover from this(4) have "(\<forall>m \<in> set (Meta eb). length m = 1) \<longrightarrow> Meta r = Meta ea @ Meta eb"
    by (simp add: concat_singletons)
  ultimately show ?thesis by blast
qed

theorem MergeErrors_same_class_witness:
  "structured (ErrResp (Addr 0)) \<lparr>heap = [ex_not_found, ex_not_found_too], entropy = []\<rparr> = Some ex_not_found \<and>
   structured (ErrResp (Addr 1)) \<lparr>heap = [ex_not_found, ex_not_found_too], entropy = []\<rparr> = Some ex_not_found_too \<and>
   Status ex_not_found = Status ex_not_found_too \<and> Code ex_not_found = Code ex_not_found_too \<and>
   Status ex_not_found \<noteq> 500 \<and> map length (Meta ex_not_found_too) = [1] \<and>
   (\<exists>p w' r. MergeErrors (ErrResp (Addr 0)) (ErrResp (Addr 1))
                \<lparr>heap = [ex_not_found, ex_not_found_too], entropy = []\<rparr> = Inr (ErrResp p, w') \<and>
      structured (ErrResp p) w' = Some r \<and> Status r = 404 \<and> Code r = ''not_found'' \<and>
      Detail r = ''no such bottle; no such account'' \<and>
      Meta r = [[(''id'', GoString ''7'')], [(''id'', GoString ''3'')]])"
proof -
  let ?w = "\<lparr>heap = [ex_not_found, ex_not_found_too], entropy = []\<rparr>"
  have h1: "structured (ErrResp (Addr 0)) ?w = Some ex_not_found"
    by (simp add: structured_def asErrorResponse_def load_def)
  have h2: "structured (ErrResp (Addr 1)) ?w = Some ex_not_found_too"
    by (simp add: structured_def asErrorResponse_def load_def)
  have h3: "Status ex_not_found = Status ex_not_found_too"
    by (simp add: ex_not_found_def ex_not_found_too_def)
  have h4: "Code ex_not_found = Code ex_not_found_too"
    by (simp add: ex_not_found_def ex_not_found_too_def)
  have h5: "Status ex_not_found \<noteq> 500" by (simp add: ex_not_found_def)
  have h6: "\<forall>m \<in> set (Meta ex_not_found_too). length m = 1" by (simp add: ex_not_found_too_def)
  from MergeErrors_same_class [OF h1 h2 h3 h4 h5] h6 obtain p w' r where
    "MergeErrors (ErrResp (Addr 0)) (ErrResp (Addr 1)) ?w = Inr (ErrResp p, w')"
    "structured (ErrResp p) w' = Some r" "Status r = Status ex_not_found"
    "Code r = Code ex_not_found" "Detail r = Detail ex_not_found @ ''; '' @ Detail ex_not_found_too"
    "Meta r = Meta ex_not_found @ Meta ex_not_found_too"
    by blast
  then have "MergeErrors (ErrResp (Addr 0)) (ErrResp (Addr 1)) ?w = Inr (ErrResp p, w') \<and>
      structured (ErrResp p) w' = Some r \<and> Status r = 404 \<and> Code r = ''not_found'' \<and>
      Detail r = ''no such bottle; no such account'' \<and>
      Meta r = [[(''id'', GoString ''7'')], [(''id'', GoString ''3'')]]"
    by (simp add: ex_not_found_def ex_not_found_too_def)
  then have "\<exists>p w' r. MergeErrors (ErrResp (Addr 0)) (ErrResp (Addr 1)) ?w = Inr (ErrResp p, w') \<and>
      structured (ErrResp p) w' = Some r \<and> Status r = 404 \<and> Code r = ''not_found'' \<and>
      Detail r = ''no such bottle; no such account'' \<and>
      Meta r = [[(''id'', GoString ''7'')], [(''id'', GoString ''3'')]]"
    by (intro exI)
  moreover have "map length (Meta ex_not_found_too) = [1]" by (simp add: ex_not_found_too_def)
  ultimately show ?thesis using h1 h2 h3 h4 h5 by (intro conjI)
qed

subsection \<open>Promotion and the nil cases\<close>

text \<open>
  C4. \<open>asErrorResponse\<close> on an error that is not a \<open>*ErrorResponse\<close> sets status 500, code
  \<open>internal_error\<close> and the detail, but no id: the id of the new cell is the empty string,
  and two errors promoted one after the other carry the same id.
\<close>

theorem asErrorResponse_leaves_id_empty:
  "structured (ErrOther ''boom'') ex_world =
     Some \<lparr>ID = [], Code = ''internal_error'', Status = 500, Detail = ''boom'', Meta = []\<rparr> \<and>
   map_option ID (structured (ErrOther ''boom'') ex_world) =
     map_option ID (returned (and_then (MergeErrors ErrNil (ErrOther ''boom'') ex_world)
                      (\<lambda>first w. MergeErrors ErrNil (ErrOther ''bang'') w)))"
  by (simp add: structured_def asErrorResponse_def alloc_def load_def returned_def and_then_def
        MergeErrors_def ex_world_def)

lemma asErrorResponse_not_nil:
  "e \<noteq> ErrNil \<Longrightarrow> \<exists>p w'. asErrorResponse e w = Inr (p, w')"
  by (cases e) (simp_all add: asErrorResponse_def)

text \<open>
  C5, as the claim states it, fails: \<open>MergeErrors\<close> is not total. A nil \<open>*ErrorResponse\<close>
  passed as an \<open>error\<close> is not the nil interface, \<open>asErrorResponse\<close> returns it as it is,
  and the merge with a second error dereferences it.
\<close>

theorem MergeErrors_nil_cases_counterexample:
  "MergeErrors (ErrResp Null) (ErrOther ''boom'') ex_world = Inl NilDereference"
  by (simp add: MergeErrors_def asErrorResponse_def alloc_def merge_switch_def load_def)

lemma well_formed_structured:
  "well_formed w a \<Longrightarrow> a \<noteq> ErrNil \<Longrightarrow> \<exists>ea. structured a w = Some ea"
  by (auto simp: well_formed_def structured_def asErrorResponse_def alloc_def load_def
           split: go_error.splits ptr.splits)

text \<open>
  C5, amended. \<open>MergeErrors(nil, nil)\<close> is nil; for a non-nil \<open>e\<close>, \<open>MergeErrors(nil, e)\<close> and
  \<open>MergeErrors(e, nil)\<close> are the same and are what \<open>asErrorResponse\<close> makes of \<open>e\<close>; whenever
  \<open>MergeErrors\<close> returns, it returns nil exactly when both arguments are nil; and it returns
  (it does not panic) whenever each argument is the nil interface, an error of another
  type or a pointer to a cell, that is, on all arguments but a nil \<open>*ErrorResponse\<close>.
\<close>

theorem MergeErrors_nil_cases:
  "MergeErrors ErrNil ErrNil w = Inr (ErrNil, w) \<and>
   (e \<noteq> ErrNil \<longrightarrow>
      MergeErrors ErrNil e w = MergeErrors e ErrNil w \<and>
      (\<exists>p w'. asErrorResponse e w = Inr (p, w') \<and> MergeErrors ErrNil e w = Inr (ErrResp p, w'))) \<and>
   (\<forall>r w'. MergeErrors a b w = Inr (r, w') \<longrightarrow> (r = ErrNil \<longleftrightarrow> a = ErrNil \<and> b = ErrNil)) \<and>
   (well_formed w a \<and> well_formed w b \<longrightarrow> (\<exists>r w'. MergeErrors a b w = Inr (r, w')))"
proof (intro conjI impI allI)
  show "MergeErrors ErrNil ErrNil w = Inr (ErrNil, w)"
    by (simp add: MergeErrors_def)
next
  assume "e \<noteq> ErrNil"
  then show "MergeErrors ErrNil e w = MergeErrors e ErrNil w"
    by (simp add: MergeErrors_def)
next
  assume e: "e \<noteq> ErrNil"
  from asErrorResponse_not_nil [OF e] obtain p w' where "asErrorResponse e w = Inr (p, w')"
    by blast
  with e show "\<exists>p w'. asErrorResponse e w = Inr (p, w') \<and> MergeErrors ErrNil e w = Inr (ErrResp p, w')"
    by (simp add: MergeErrors_def)
next
  fix r w'
  assume "MergeErrors a b w = Inr (r, w')"
  then show "r = ErrNil \<longleftrightarrow> a = ErrNil \<and> b = ErrNil"
    by (auto simp: MergeErrors_def split: if_splits sum.splits)
next
  assume wf: "well_formed w a \<and> well_formed w b"
  show "\<exists>r w'. MergeErrors a b w = Inr (r, w')"
  proof (cases "a = ErrNil")
    case True
    show ?thesis
    proof (cases "b = ErrNil")
      case True
      with \<open>a = ErrNil\<close> show ?thesis by (simp add: MergeErrors_def)
    next
      case False
      from asErrorResponse_not_nil [OF False] obtain p w' where "asErrorResponse b w = Inr (p, w')"
        by blast
      with False \<open>a = ErrNil\<close> show ?thesis by (simp add: MergeErrors_def)
    qed
  next
    case False
    with wf well_formed_structured [of w a] obtain ea where ea: "structured a w = Some ea"
      by blast
    show ?thesis
    proof (cases "b = ErrNil")
      case True
      with MergeErrors_right_nil [OF ea] show ?thesis by blast
    next
      case False
      with wf well_formed_structured [of w b] obtain eb where eb: "structured b w = Some eb"
        by blast
      from MergeErrors_both [OF ea eb] show ?thesis by blast
    qed
  qed
qed

theorem MergeErrors_nil_cases_witness:
  "ErrOther ''boom'' \<noteq> ErrNil \<and>
   MergeErrors ErrNil (ErrOther ''boom'') ex_world = MergeErrors (ErrOther ''boom'') ErrNil ex_world \<and>
   (\<exists>p w'. asErrorResponse (ErrOther ''boom'') ex_world = Inr (p, w') \<and>
            MergeErrors ErrNil (ErrOther ''boom'') ex_world = Inr (ErrResp p, w')) \<and>
   well_formed ex_world (ErrResp (Addr 0)) \<and>
   well_formed ex_world (ErrOther ''bang'') \<and>
   (\<exists>r w'. MergeErrors (ErrResp (Addr 0)) (ErrOther ''bang'') ex_world = Inr (r, w') \<and> r \<noteq> ErrNil)"
proof -
  have h1: "ErrOther ''boom'' \<noteq> ErrNil" by simp
  have h2: "well_formed ex_world (ErrResp (Addr 0))"
    by (simp add: well_formed_def ex_world_def)
  have h3: "well_formed ex_world (ErrOther ''bang'')"
    by (simp add: well_formed_def)
  from MergeErrors_nil_cases [of ex_world "ErrOther ''boom''" "ErrResp (Addr 0)" "ErrOther ''bang''"]
  have "MergeErrors ErrNil (ErrOther ''boom'') ex_world = MergeErrors (ErrOther ''boom'') ErrNil ex_world"
    and "\<exists>p w'. asErrorResponse (ErrOther ''boom'') ex_world = Inr (p, w') \<and>
            MergeErrors ErrNil (ErrOther ''boom'') ex_world = Inr (ErrResp p, w')"
    and "\<exists>r w'. MergeErrors (ErrResp (Addr 0)) (ErrOther ''bang'') ex_world = Inr (r, w') \<and> r \<noteq> ErrNil"
    using h1 h2 h3 by blast+
  with h1 h2 h3 show ?thesis by (intro conjI)
qed

text \<open>
  C6. The error returned by a merge carries the id that the first argument had in structured
  form, whether the second argument is nil or not; no cell that existed before the call
  has its id changed, and the random source is not read.
\<close>

theorem MergeErrors_keeps_id:
  assumes "structured a w = Some ea" and "b = ErrNil \<or> structured b w \<noteq> None"
  shows "\<exists>p w1 w' r. asErrorResponse a w = Inr (p, w1) \<and>
           MergeErrors a b w = Inr (ErrResp p, w') \<and>
           structured (ErrResp p) w' = Some r \<and> ID r = ID ea \<and>
           map ID (take (length (heap w)) (heap w')) = map ID (heap w) \<and>
           entropy w' = entropy w"
proof (cases "b = ErrNil")
  case True
  with MergeErrors_right_nil [OF assms(1)] show ?thesis by blast
next
  case False
  with assms(2) obtain eb where eb: "structured b w = Some eb" by auto
  from MergeErrors_both [OF assms(1) eb] obtain p w1 w' r where
    "asErrorResponse a w = Inr (p, w1)" "MergeErrors a b w = Inr (ErrResp p, w')"
    "entropy w' = entropy w" "map ID (take (length (heap w)) (heap w')) = map ID (heap w)"
    "structured (ErrResp p) w' = Some r"
    and r: "r = ea\<lparr>Status := (if Status ea = 500 \<or> Status eb = 500 then 500
                                 else if Status ea \<noteq> Status eb \<or> Code ea \<noteq> Code eb then 400
                                 else Status ea),
                      Code := (if Status ea = 500 then Code ea
                               else if Status eb = 500 then ''internal_error''
                               else if Status ea \<noteq> Status eb \<or> Code ea \<noteq> Code eb then ''bad_request''
                               else Code ea),
                      Detail := Detail ea @ ''; '' @ Detail eb,
                      Meta := Meta ea @ concat (map (map (\<lambda>kv. [kv])) (Meta eb))\<rparr>"
    by blast
  moreover from r have "ID r = ID ea" by simp
  ultimately show ?thesis by blast
qed

theorem MergeErrors_keeps_id_witness:
  "structured (ErrResp (Addr 0)) ex_world = Some ex_not_found \<and>
   (ErrResp (Addr 1) = ErrNil \<or> structured (ErrResp (Addr 1)) ex_world \<noteq> None) \<and>
   (\<exists>p w' r. MergeErrors (ErrResp (Addr 0)) (ErrResp (Addr 1)) ex_world = Inr (ErrResp p, w') \<and>
      structured (ErrResp p) w' = Some r \<and> ID r = ''AQIDBAUG'' \<and>
      map ID (take 2 (heap w')) = [''AQIDBAUG'', ''BwgJCgsM''])"
proof -
  have h1: "structured (ErrResp (Addr 0)) ex_world = Some ex_not_found"
    by (simp add: structured_def asErrorResponse_def load_def ex_world_def)
  have h2: "ErrResp (Addr 1) = ErrNil \<or> structured (ErrResp (Addr 1)) ex_world \<noteq> None"
    by (simp add: structured_def asErrorResponse_def load_def ex_world_def)
  from MergeErrors_keeps_id [OF h1 h2] obtain p w' r where
    "MergeErrors (ErrResp (Addr 0)) (ErrResp (Addr 1)) ex_world = Inr (ErrResp p, w')"
    "structured (ErrResp p) w' = Some r" "ID r = ID ex_not_found"
    "map ID (take (length (heap ex_world)) (heap w')) = map ID (heap ex_world)"
    by blast
  then have "MergeErrors (ErrResp (Addr 0)) (ErrResp (Addr 1)) ex_world = Inr (ErrResp p, w') \<and>
      structured (ErrResp p) w' = Some r \<and> ID r = ''AQIDBAUG'' \<and>
      map ID (take 2 (heap w')) = [''AQIDBAUG'', ''BwgJCgsM'']"
    by (simp add: ex_world_def ex_not_found_def ex_bad_request_def numeral_2_eq_2)
  then have "\<exists>p w' r. MergeErrors (ErrResp (Addr 0)) (ErrResp (Addr 1)) ex_world = Inr (ErrResp p, w') \<and>
      structured (ErrResp p) w' = Some r \<and> ID r = ''AQIDBAUG'' \<and>
      map ID (take 2 (heap w')) = [''AQIDBAUG'', ''BwgJCgsM'']"
    by (intro exI)
  with h1 h2 show ?thesis by (intro conjI)
qed

text \<open>
  C10. When the first argument has status 500 in structured form the code returned is its
  code, untouched; the code returned is a new \<open>internal_error\<close> only when the first argument
  did not have status 500 and the second has. An error of the class \<open>ErrInternal\<close> so
  keeps its code \<open>internal\<close>, as the instance after the theorem shows.
\<close>

theorem MergeErrors_keeps_code_of_500:
  assumes "structured a w = Some ea" and "b = ErrNil \<or> structured b w \<noteq> None"
  shows "\<exists>p w' r. MergeErrors a b w = Inr (ErrResp p, w') \<and>
           structured (ErrResp p) w' = Some r \<and>
           (Status ea = 500 \<longrightarrow> Code r = Code ea) \<and>
           (Code r \<noteq> Code ea \<and> Code r = ''internal_error'' \<longrightarrow>
              Status ea \<noteq> 500 \<and> (\<exists>eb. structured b w = Some eb \<and> Status eb = 500))"
proof (cases "b = ErrNil")
  case True
  with MergeErrors_right_nil [OF assms(1)] show ?thesis by blast
next
  case False
  with assms(2) obtain eb where eb: "structured b w = Some eb" by auto
  from MergeErrors_both [OF assms(1) eb] obtain p w' r where
    m: "MergeErrors a b w = Inr (ErrResp p, w')" "structured (ErrResp p) w' = Some r"
    and r: "r = ea\<lparr>Status := (if Status ea = 500 \<or> Status eb = 500 then 500
                                 else if Status ea \<noteq> Status eb \<or> Code ea \<noteq> Code eb then 400
                                 else Status ea),
                      Code := (if Status ea = 500 then Code ea
                               else if Status eb = 500 then ''internal_error''
                               else if Status ea \<noteq> Status eb \<or> Code ea \<noteq> Code eb then ''bad_request''
                               else Code ea),
                      Detail := Detail ea @ ''; '' @ Detail eb,
                      Meta := Meta ea @ concat (map (map (\<lambda>kv. [kv])) (Meta eb))\<rparr>"
    by blast
  from r have c1: "Status ea = 500 \<longrightarrow> Code r = Code ea" by simp
  from r have "Code r \<noteq> Code ea \<and> Code r = ''internal_error'' \<longrightarrow>
      Status ea \<noteq> 500 \<and> Status eb = 500"
    by (auto split: if_splits)
  with eb have c2: "Code r \<noteq> Code ea \<and> Code r = ''internal_error'' \<longrightarrow>
              Status ea \<noteq> 500 \<and> (\<exists>eb. structured b w = Some eb \<and> Status eb = 500)"
    by simp
  from m c1 c2 show ?thesis by (intro exI conjI)
qed

theorem MergeErrors_keeps_code_of_500_witness:
  "ErrInternal (GoString ''boom'') [] \<lparr>heap = [], entropy = []\<rparr> = Inr (ErrResp (Addr 0), ex_internal_world) \<and>
   structured (ErrResp (Addr 0)) ex_internal_world =
     Some \<lparr>ID = ''AAAAAAAA'', Code = ''internal'', Status = 500, Detail = ''boom'', Meta = []\<rparr> \<and>
   (ErrOther ''bang'' = ErrNil \<or> structured (ErrOther ''bang'') ex_internal_world \<noteq> None) \<and>
   (\<exists>p w' r. MergeErrors (ErrResp (Addr 0)) (ErrOther ''bang'') ex_internal_world = Inr (ErrResp p, w') \<and>
      structured (ErrResp p) w' = Some r \<and> Code r = ''internal'')"
proof -
  let ?ea = "\<lparr>ID = ''AAAAAAAA'', Code = ''internal'', Status = 500, Detail = ''boom'', Meta = []\<rparr>"
  have h0: "ErrInternal (GoString ''boom'') [] \<lparr>heap = [], entropy = []\<rparr> = Inr (ErrResp (Addr 0), ex_internal_world)"
    by (simp add: ErrInternal_def NewErrorClass_def build_meta_done newErrorID_silent alloc_def
          message_text_def ex_internal_world_def)
  have h1: "structured (ErrResp (Addr 0)) ex_internal_world = Some ?ea"
    by (simp add: structured_def asErrorResponse_def load_def ex_internal_world_def)
  have h2: "ErrOther ''bang'' = ErrNil \<or> structured (ErrOther ''bang'') ex_internal_world \<noteq> None"
    by (simp add: structured_def asErrorResponse_def load_def alloc_def)
  from MergeErrors_keeps_code_of_500 [OF h1 h2]
  have "\<exists>p w' r. MergeErrors (ErrResp (Addr 0)) (ErrOther ''bang'') ex_internal_world = Inr (ErrResp p, w') \<and>
      structured (ErrResp p) w' = Some r \<and> Code r = ''internal''"
    by auto
  with h0 h1 h2 show ?thesis by (intro conjI)
qed

subsection \<open>Claims about error classes\<close>

text \<open>
  C7. An error class called with an odd number of key/value arguments returns an error
  (the loop does not index out of range), and the last map of its metadata pairs the last
  argument, as a key, with the string \<open>MISSING\<close>.
\<close>

theorem ErrorClass_odd_keyvals:
  assumes "odd (length keyvals)"
  shows "\<exists>p w' r. NewErrorClass code status message keyvals w = Inr (ErrResp p, w') \<and>
           structured (ErrResp p) w' = Some r \<and>
           Meta r \<noteq> [] \<and>
           last (Meta r) = [(fmt_v (last keyvals), GoString ''MISSING'')]"
proof -
  from assms obtain k where k: "length keyvals = 2 * k + 1" by (elim oddE)
  then have ne: "keyvals \<noteq> []" by auto
  from NewErrorClass_result [of code status message keyvals w] obtain meta where
    res: "NewErrorClass code status message keyvals w =
            Inr (ErrResp (Addr (length (heap w))),
                 \<lparr>heap = heap w @ [\<lparr>ID = fst (newErrorID w), Code = code, Status = status,
                                    Detail = message_text message, Meta = meta\<rparr>],
                    entropy = drop 6 (entropy w)\<rparr>)"
    and len: "length meta = (length keyvals + 1) div 2"
    and nth: "\<And>j. j < length meta \<Longrightarrow> meta ! j =
             [(fmt_v (keyvals ! (2 * j)),
               if 2 * j + 1 < length keyvals then keyvals ! (2 * j + 1) else GoString ''MISSING'')]"
    by blast
  from len k have lm: "length meta = k + 1" by simp
  then have mne: "meta \<noteq> []" by auto
  have "last meta = meta ! k" using lm mne by (simp add: last_conv_nth)
  also have "\<dots> = [(fmt_v (keyvals ! (2 * k)), GoString ''MISSING'')]"
    using nth [of k] lm k by simp
  also have "keyvals ! (2 * k) = last keyvals" using k ne by (simp add: last_conv_nth)
  finally have "last meta = [(fmt_v (last keyvals), GoString ''MISSING'')]" .
  with res mne show ?thesis
    by (simp add: structured_def asErrorResponse_def load_def)
qed

theorem ErrorClass_odd_keyvals_witness:
  "odd (length [GoString ''name'', GoString ''id'', GoString ''parent'']) \<and>
   (\<exists>p w' r. NewErrorClass ''invalid_request'' 400 (GoString ''missing'')
                [GoString ''name'', GoString ''id'', GoString ''parent'']
                \<lparr>heap = [], entropy = []\<rparr> = Inr (ErrResp p, w') \<and>
      structured (ErrResp p) w' = Some r \<and> Meta r \<noteq> [] \<and>
      last (Meta r) = [(''parent'', GoString ''MISSING'')])"
proof -
  have h: "odd (length [GoString ''name'', GoString ''id'', GoString ''parent''])" by simp
  from ErrorClass_odd_keyvals [OF h, of "''invalid_request''" 400 "GoString ''missing''"
      "\<lparr>heap = [], entropy = []\<rparr>"]
  have "\<exists>p w' r. NewErrorClass ''invalid_request'' 400 (GoString ''missing'')
                [GoString ''name'', GoString ''id'', GoString ''parent'']
                \<lparr>heap = [], entropy = []\<rparr> = Inr (ErrResp p, w') \<and>
      structured (ErrResp p) w' = Some r \<and> Meta r \<noteq> [] \<and>
      last (Meta r) = [(''parent'', GoString ''MISSING'')]"
    by (simp add: fmt_v_def)
  with h show ?thesis by (intro conjI)
qed

text \<open>
  C8. A call of the class \<open>NewErrorClass code status\<close> returns a cell that was not in the
  store before, the cells that were there untouched, with that code and status, an
  eight-character id from the random source, the detail taken from the message (a string
  as it is, else the text of \<open>Error()\<close>, else the text of \<open>String()\<close>, else the default
  rendering), and one single-key map per key/value pair, in the order of the arguments.
\<close>

theorem ErrorClass_builds:
  "\<exists>p w' r. NewErrorClass code status message keyvals w = Inr (ErrResp p, w') \<and>
      load p w = Inl NilDereference \<and>
      take (length (heap w)) (heap w') = heap w \<and>
      structured (ErrResp p) w' = Some r \<and>
      Code r = code \<and> Status r = status \<and>
      ID r = fst (newErrorID w) \<and> length (ID r) = 8 \<and>
      Detail r =
        (case message of
           GoString s \<Rightarrow> s
         | GoNil \<Rightarrow> ''<nil>''
         | GoDyn e s d g \<Rightarrow>
             (case e of Some m \<Rightarrow> m | None \<Rightarrow> (case s of Some t \<Rightarrow> t | None \<Rightarrow> d))) \<and>
      length (Meta r) = (length keyvals + 1) div 2 \<and>
      (\<forall>j < length (Meta r). Meta r ! j =
         [(fmt_v (keyvals ! (2 * j)),
           if 2 * j + 1 < length keyvals then keyvals ! (2 * j + 1) else GoString ''MISSING'')])"
proof -
  from NewErrorClass_result [of code status message keyvals w] obtain meta where
    res: "NewErrorClass code status message keyvals w =
            Inr (ErrResp (Addr (length (heap w))),
                 \<lparr>heap = heap w @ [\<lparr>ID = fst (newErrorID w), Code = code, Status = status,
                                    Detail = message_text message, Meta = meta\<rparr>],
                    entropy = drop 6 (entropy w)\<rparr>)"
    and len: "length meta = (length keyvals + 1) div 2"
    and nth: "\<forall>j < length meta. meta ! j =
             [(fmt_v (keyvals ! (2 * j)),
               if 2 * j + 1 < length keyvals then keyvals ! (2 * j + 1) else GoString ''MISSING'')]"
    by blast
  have msg: "message_text message =
        (case message of
           GoString s \<Rightarrow> s
         | GoNil \<Rightarrow> ''<nil>''
         | GoDyn e s d g \<Rightarrow>
             (case e of Some m \<Rightarrow> m | None \<Rightarrow> (case s of Some t \<Rightarrow> t | None \<Rightarrow> d)))"
    by (simp add: message_text_def fmt_v_def split: go_value.splits option.splits)
  from res len nth msg show ?thesis
    by (simp add: structured_def asErrorResponse_def load_def length_newErrorID)
qed

theorem ErrorClass_builds_witness:
  "\<exists>p w' r. NewErrorClass ''not_found'' 404 (GoDyn (Some ''no rows'') (Some ''ErrNoRows'') ''{}'' ''sql.Err{}'')
               [GoString ''id'', GoString ''7'', GoString ''table''] ex_world = Inr (ErrResp p, w') \<and>
      structured (ErrResp p) w' = Some r \<and>
      Code r = ''not_found'' \<and> Status r = 404 \<and> Detail r = ''no rows'' \<and>
      length (Meta r) = 2 \<and> (0 < length (Meta r) \<longrightarrow> Meta r ! 0 = [(''id'', GoString ''7'')]) \<and>
      (1 < length (Meta r) \<longrightarrow> Meta r ! 1 = [(''table'', GoString ''MISSING'')])"
  using ErrorClass_builds [of "''not_found''" 404 "GoDyn (Some ''no rows'') (Some ''ErrNoRows'') ''{}'' ''sql.Err{}''"
      "[GoString ''id'', GoString ''7'', GoString ''table'']" ex_world]
  by (auto simp: fmt_v_def)

text \<open>
  C9, as the claim states it, fails on the number of metadata entries: the merged error
  has four, not two.
\<close>

theorem merge_missing_param_invalid_type_counterexample:
  "map_option (length \<circ> Meta)
     (returned (and_then (MissingParamError (\<lambda>r. False) ''id'' \<lparr>heap = [], entropy = []\<rparr>)
        (\<lambda>a w1. and_then (InvalidParamTypeError (\<lambda>r. False) ''sort'' (GoString ''xx'') ''integer'' w1)
           (\<lambda>b w2. MergeErrors a b w2))))
   \<noteq> Some 2"
  by (simp add: returned_def and_then_def MissingParamError_def InvalidParamTypeError_def
        ErrInvalidRequest_def NewErrorClass_def build_meta_two build_meta_six
        newErrorID_silent alloc_def message_text_def
        MergeErrors_def asErrorResponse_def structured_def merge_switch_def
        merge_detail_def merge_meta_def load_def store_def)

text \<open>
  C9, amended. Merging \<open>MissingParamError("id")\<close> with
  \<open>InvalidParamTypeError("sort", "xx", "integer")\<close>, built one after the other, gives one
  error with status 400, code \<open>invalid_request\<close>, the id of the first, the two messages
  joined by \<open>"; "\<close>, and four single-key metadata maps: \<open>name\<close> from the first helper, then
  \<open>param\<close>, \<open>value\<close> and \<open>expected\<close> from the second.
\<close>

theorem merge_missing_param_invalid_type:
  "returned (and_then (MissingParamError tbl ''id'' w)
     (\<lambda>a w1. and_then (InvalidParamTypeError tbl ''sort'' (GoString ''xx'') ''integer'' w1)
        (\<lambda>b w2. MergeErrors a b w2))) =
   Some \<lparr>ID = fst (newErrorID w), Code = ''invalid_request'', Status = 400,
         Detail = ''missing required parameter '' @ [CHR 0x22] @ ''id'' @ [CHR 0x22] @
                  ''; invalid value '' @ [CHR 0x22] @ ''xx'' @ [CHR 0x22] @
                  '' for parameter '' @ [CHR 0x22] @ ''sort'' @ [CHR 0x22] @
                  '', must be a integer'',
         Meta = [[(''name'', GoString ''id'')], [(''param'', GoString ''sort'')],
                 [(''value'', GoString ''xx'')], [(''expected'', GoString ''integer'')]]\<rparr>"
proof -
  show ?thesis
    by (simp add: returned_def and_then_def MissingParamError_def InvalidParamTypeError_def
          ErrInvalidRequest_def NewErrorClass_def build_meta_two build_meta_six
          newErrorID_def alloc_def fmt_sharp_v_def fmt_v_def message_text_def go_quote_examples
          MergeErrors_def asErrorResponse_def structured_def merge_switch_def
          merge_detail_def merge_meta_def load_def store_def nth_append Let_def)
qed

end
